theory Spec2Isabelle
  imports Complex_Main "HOL-Library.Word"
begin

section \<open>Python values used by the sample mixer\<close>

text \<open>
  The embedding follows \<^verbatim>\<open>src/synthesizer/sample.py\<close>. Python integers are \<open>int\<close> (or
  \<open>nat\<close> for lengths and counts), the raw frame buffer (\<^verbatim>\<open>bytes\<close>) is a list of 8-bit words,
  and every \<^verbatim>\<open>raise\<close> and failing \<^verbatim>\<open>assert\<close> is a value \<open>Inl e\<close> of a sum type.
  Python floats (seconds, volume factors, decibel levels) are modelled by exact real numbers:
  rounding to IEEE doubles is not part of the model.
\<close>

datatype error = AssertionError | AudioopError | KeyError | OverflowError | ValueError

type_synonym byte = "8 word"

definition bindE :: "error + 'a \<Rightarrow> ('a \<Rightarrow> error + 'b) \<Rightarrow> error + 'b" where
  "bindE m f = (case m of Inl e \<Rightarrow> Inl e | Inr x \<Rightarrow> f x)"

text \<open>Python's \<^verbatim>\<open>int(x)\<close> on a float truncates towards zero.\<close>

definition py_int :: "real \<Rightarrow> int" where
  "py_int x = (if 0 \<le> x then \<lfloor>x\<rfloor> else \<lceil>x\<rceil>)"

text \<open>
  Python slicing \<^verbatim>\<open>xs[b:]\<close>, \<^verbatim>\<open>xs[:e]\<close> and \<^verbatim>\<open>xs[b:e]\<close>: a negative index counts from the
  end, and every index is clamped to the range of the sequence.
\<close>

definition norm_idx :: "nat \<Rightarrow> int \<Rightarrow> nat" where
  "norm_idx n i = (if i < 0 then nat (max 0 (int n + i)) else min n (nat i))"

definition slice_to :: "'a list \<Rightarrow> int \<Rightarrow> 'a list" where
  "slice_to xs e = take (norm_idx (length xs) e) xs"

definition slice_from :: "'a list \<Rightarrow> int \<Rightarrow> 'a list" where
  "slice_from xs b = drop (norm_idx (length xs) b) xs"

definition slice :: "'a list \<Rightarrow> int \<Rightarrow> int \<Rightarrow> 'a list" where
  "slice xs b e =
     (let lo = norm_idx (length xs) b; hi = norm_idx (length xs) e
      in take (hi - lo) (drop lo xs))"

text \<open>\<^verbatim>\<open>b"\0" * k\<close>: a negative repeat count gives the empty buffer.\<close>

definition zeros :: "int \<Rightarrow> byte list" where
  "zeros k = replicate (nat k) 0"

section \<open>The PCM kernel (Python's \<^verbatim>\<open>audioop\<close>)\<close>

text \<open>
  The kernel functions are called by the sample class but are not part of the repository's
  sources: they are the standard \<^verbatim>\<open>audioop\<close> module. Samples are little-endian two's
  complement integers of \<open>width\<close> bytes.
\<close>

fun le_uint :: "byte list \<Rightarrow> int" where
  "le_uint [] = 0"
| "le_uint (b # bs) = uint b + 256 * le_uint bs"

fun le_bytes :: "nat \<Rightarrow> int \<Rightarrow> byte list" where
  "le_bytes 0 v = []"
| "le_bytes (Suc n) v = word_of_int v # le_bytes n (v div 256)"

definition minval :: "nat \<Rightarrow> int" where
  "minval w = - (2 ^ (8 * w - 1))"

definition maxval :: "nat \<Rightarrow> int" where
  "maxval w = 2 ^ (8 * w - 1) - 1"

definition to_signed :: "nat \<Rightarrow> int \<Rightarrow> int" where
  "to_signed w u = (if 2 ^ (8 * w - 1) \<le> u then u - 2 ^ (8 * w) else u)"

text \<open>The sample value number \<open>i\<close> of a buffer, and the whole buffer as sample values.\<close>

definition getrawsample :: "nat \<Rightarrow> byte list \<Rightarrow> nat \<Rightarrow> int" where
  "getrawsample w bs i = to_signed w (le_uint (take w (drop (i * w) bs)))"

definition get_samples :: "nat \<Rightarrow> byte list \<Rightarrow> int list" where
  "get_samples w bs = map (getrawsample w bs) [0..<length bs div w]"

definition put_samples :: "nat \<Rightarrow> int list \<Rightarrow> byte list" where
  "put_samples w vs = concat (map (le_bytes w) vs)"

text \<open>
  Modelled from the spec: the parameter check every kernel function starts with (the
  kernel handles widths of 1 to 4 bytes and refuses a buffer that is not a whole number
  of sample values); \<^verbatim>\<open>audioop.error\<close> is \<open>AudioopError\<close>.
\<close>

definition audioop_check_parameters :: "nat \<Rightarrow> nat \<Rightarrow> bool" where
  "audioop_check_parameters len w = (1 \<le> w \<and> w \<le> 4 \<and> len mod w = 0)"

text \<open>
  Modelled from the spec: the kernel's clamp of a scaled value to the representable
  range of the width, rounding towards minus infinity (\<^verbatim>\<open>fbound\<close> followed by
  \<^verbatim>\<open>floor\<close> in \<^verbatim>\<open>audioop\<close>).
\<close>

definition fbound :: "nat \<Rightarrow> real \<Rightarrow> int" where
  "fbound w val =
     (if val > real_of_int (maxval w) then maxval w
      else if val < real_of_int (minval w) + 1 then minval w
      else \<lfloor>val\<rfloor>)"

text \<open>Modelled from the spec: peak magnitude (\<^verbatim>\<open>audioop.max\<close>), 0 for an empty buffer.\<close>

definition audioop_max :: "byte list \<Rightarrow> nat \<Rightarrow> error + int" where
  "audioop_max bs w =
     (if \<not> audioop_check_parameters (length bs) w then Inl AudioopError
      else Inr (fold (\<lambda>v m. max m \<bar>v\<bar>) (get_samples w bs) 0))"

text \<open>
  Modelled from the spec: root mean square (\<^verbatim>\<open>audioop.rms\<close>), the square root of the mean
  of the squares, truncated; 0 for an empty buffer.
\<close>

definition audioop_rms :: "byte list \<Rightarrow> nat \<Rightarrow> error + int" where
  "audioop_rms bs w =
     (if \<not> audioop_check_parameters (length bs) w then Inl AudioopError
      else if bs = [] then Inr 0
      else Inr \<lfloor>sqrt (real_of_int (sum_list (map (\<lambda>v. v * v) (get_samples w bs)))
                       / real (length bs div w))\<rfloor>)"

text \<open>Modelled from the spec: scalar gain (\<^verbatim>\<open>audioop.mul\<close>), each value clamped.\<close>

definition audioop_mul :: "byte list \<Rightarrow> nat \<Rightarrow> real \<Rightarrow> error + byte list" where
  "audioop_mul bs w factor =
     (if \<not> audioop_check_parameters (length bs) w then Inl AudioopError
      else Inr (put_samples w (map (\<lambda>v. fbound w (real_of_int v * factor)) (get_samples w bs))))"

text \<open>
  Modelled from the spec: elementwise add (\<^verbatim>\<open>audioop.add\<close>); the operands must be of
  equal length, and a sum outside the representable range is clamped to it.
\<close>

definition add_sample :: "nat \<Rightarrow> int \<Rightarrow> int \<Rightarrow> int" where
  "add_sample w a b =
     (if w < 4 then (if a + b > maxval w then maxval w
                     else if a + b < minval w then minval w else a + b)
      else fbound w (real_of_int a + real_of_int b))"

definition audioop_add :: "byte list \<Rightarrow> byte list \<Rightarrow> nat \<Rightarrow> error + byte list" where
  "audioop_add bs1 bs2 w =
     (if \<not> audioop_check_parameters (length bs1) w then Inl AudioopError
      else if length bs1 \<noteq> length bs2 then Inl AudioopError
      else Inr (put_samples w (map (\<lambda>(a, b). add_sample w a b)
                  (zip (get_samples w bs1) (get_samples w bs2)))))"

text \<open>Modelled from the spec: one sample value by index (\<^verbatim>\<open>audioop.getsample\<close>).\<close>

definition audioop_getsample :: "byte list \<Rightarrow> nat \<Rightarrow> int \<Rightarrow> error + int" where
  "audioop_getsample bs w i =
     (if \<not> audioop_check_parameters (length bs) w then Inl AudioopError
      else if i < 0 \<or> int (length bs div w) \<le> i then Inl AudioopError
      else Inr (getrawsample w bs (nat i)))"

text \<open>
  Modelled from the spec: width conversion (\<^verbatim>\<open>audioop.lin2lin\<close>): a value is shifted up to
  32 bits and then shifted down (arithmetically) to the new width.
\<close>

definition audioop_lin2lin :: "byte list \<Rightarrow> nat \<Rightarrow> nat \<Rightarrow> error + byte list" where
  "audioop_lin2lin bs w w2 =
     (if \<not> audioop_check_parameters (length bs) w then Inl AudioopError
      else if \<not> (1 \<le> w2 \<and> w2 \<le> 4) then Inl AudioopError
      else Inr (put_samples w2
             (map (\<lambda>v. (v * 2 ^ (8 * (4 - w))) div 2 ^ (8 * (4 - w2))) (get_samples w bs))))"

text \<open>
  Modelled from the spec: stereo to mono with per-channel factors (\<^verbatim>\<open>audioop.tomono\<close>);
  the buffer must hold a whole number of two-channel frames.
\<close>

fun mono_pairs :: "nat \<Rightarrow> real \<Rightarrow> real \<Rightarrow> int list \<Rightarrow> int list" where
  "mono_pairs w lf rf (l # r # vs) =
     fbound w (real_of_int l * lf + real_of_int r * rf) # mono_pairs w lf rf vs"
| "mono_pairs w lf rf vs = []"

definition audioop_tomono :: "byte list \<Rightarrow> nat \<Rightarrow> real \<Rightarrow> real \<Rightarrow> error + byte list" where
  "audioop_tomono bs w lf rf =
     (if \<not> audioop_check_parameters (length bs) w then Inl AudioopError
      else if (length bs div w) mod 2 \<noteq> 0 then Inl AudioopError
      else Inr (put_samples w (mono_pairs w lf rf (get_samples w bs))))"

text \<open>Modelled from the spec: mono to stereo with per-channel factors (\<^verbatim>\<open>audioop.tostereo\<close>).\<close>

definition audioop_tostereo :: "byte list \<Rightarrow> nat \<Rightarrow> real \<Rightarrow> real \<Rightarrow> error + byte list" where
  "audioop_tostereo bs w lf rf =
     (if \<not> audioop_check_parameters (length bs) w then Inl AudioopError
      else Inr (put_samples w
             (concat (map (\<lambda>v. [fbound w (real_of_int v * lf), fbound w (real_of_int v * rf)])
                          (get_samples w bs)))))"

text \<open>
  The typed array of \<^verbatim>\<open>Sample.get_array\<close>: the table \<^verbatim>\<open>samplewidths_to_arraycode\<close> has the
  keys 1, 2 and 4 only, so a width of 3 raises \<^verbatim>\<open>KeyError\<close>; \<^verbatim>\<open>append\<close> raises
  \<^verbatim>\<open>OverflowError\<close> on a value the item type cannot hold; \<^verbatim>\<open>tobytes\<close> is \<open>put_samples\<close>
  (on a little-endian platform, where the source's byte swap is not taken).
\<close>

definition get_array :: "nat \<Rightarrow> error + int list" where
  "get_array w = (if w = 1 \<or> w = 2 \<or> w = 4 then Inr [] else Inl KeyError)"

definition array_append :: "nat \<Rightarrow> int list \<Rightarrow> int \<Rightarrow> error + int list" where
  "array_append w arr v =
     (if minval w \<le> v \<and> v \<le> maxval w then Inr (arr @ [v]) else Inl OverflowError)"

definition tobytes :: "nat \<Rightarrow> int list \<Rightarrow> byte list" where
  "tobytes w arr = put_samples w arr"

section \<open>The class \<^verbatim>\<open>Sample\<close>\<close>

text \<open>
  A method that mutates \<^verbatim>\<open>self\<close> and returns it takes the sample and returns the updated
  sample, or the exception it raises.
\<close>

record Sample =
  frames :: "byte list"
  samplewidth :: nat
  samplerate :: int
  nchannels :: nat
  locked :: bool
  filename :: "string option"

text \<open>\<^verbatim>\<open>Sample()\<close> without a wave file.\<close>

definition new_Sample :: Sample where
  "new_Sample = \<lparr>frames = [], samplewidth = 2, samplerate = 44100, nchannels = 2,
                  locked = False, filename = None\<rparr>"

definition from_raw_frames :: "byte list \<Rightarrow> int \<Rightarrow> int \<Rightarrow> int \<Rightarrow> error + Sample" where
  "from_raw_frames fr width rate numchannels =
     (if \<not> (1 \<le> numchannels \<and> numchannels \<le> 2) then Inl AssertionError
      else if \<not> (2 \<le> width \<and> width \<le> 4) then Inl AssertionError
      else if \<not> 1 < rate then Inl AssertionError
      else Inr (new_Sample\<lparr>frames := fr, samplerate := rate, samplewidth := nat width,
                            nchannels := nat numchannels\<rparr>))"

text \<open>The setter of the property \<^verbatim>\<open>samplerate\<close>.\<close>

definition set_samplerate :: "Sample \<Rightarrow> real \<Rightarrow> error + Sample" where
  "set_samplerate s rate =
     (if \<not> 0 < rate then Inl AssertionError else Inr (s\<lparr>samplerate := py_int rate\<rparr>))"

text \<open>
  \<^verbatim>\<open>duration\<close> divides by the sample rate, the width and the channel count, which every
  constructor asserts to be positive.
\<close>

definition duration :: "Sample \<Rightarrow> real" where
  "duration s = real (length (frames s)) / real_of_int (samplerate s)
                  / real (samplewidth s) / real (nchannels s)"

text \<open>\<^verbatim>\<open>__len__\<close>: the number of frames.\<close>

definition sample_len :: "Sample \<Rightarrow> nat" where
  "sample_len s = length (frames s) div samplewidth s div nchannels s"

definition maximum :: "Sample \<Rightarrow> error + int" where
  "maximum s = audioop_max (frames s) (samplewidth s)"

definition level_of :: "bool \<Rightarrow> byte list \<Rightarrow> nat \<Rightarrow> error + int" where
  "level_of rms_mode fr w = (if rms_mode then audioop_rms fr w else audioop_max fr w)"

definition db_level :: "Sample \<Rightarrow> bool \<Rightarrow> error + real \<times> real" where
  "db_level s rms_mode =
     (let maxvalue = (2::real) ^ (8 * samplewidth s - 1) in
      if nchannels s = 1 then
        bindE (level_of rms_mode (frames s) (samplewidth s)) (\<lambda>p.
          let peak = (real_of_int p + 1) / maxvalue
          in Inr (max (20 * log 10 peak) (- 60), max (20 * log 10 peak) (- 60)))
      else
        bindE (audioop_tomono (frames s) (samplewidth s) 1 0) (\<lambda>left_frames.
        bindE (audioop_tomono (frames s) (samplewidth s) 0 1) (\<lambda>right_frames.
        bindE (level_of rms_mode left_frames (samplewidth s)) (\<lambda>pl.
        bindE (level_of rms_mode right_frames (samplewidth s)) (\<lambda>pr.
          let peak_l = (real_of_int pl + 1) / maxvalue;
              peak_r = (real_of_int pr + 1) / maxvalue
          in Inr (max (20 * log 10 peak_l) (- 60), max (20 * log 10 peak_r) (- 60)))))))"

definition copy_from :: "Sample \<Rightarrow> Sample \<Rightarrow> error + Sample" where
  "copy_from s other =
     (if locked s then Inl AssertionError
      else Inr (s\<lparr>frames := frames other, samplewidth := samplewidth other,
                   samplerate := samplerate other, nchannels := nchannels other,
                   filename := filename other\<rparr>))"

definition copy :: "Sample \<Rightarrow> error + Sample" where
  "copy s = copy_from new_Sample s"

definition lock :: "Sample \<Rightarrow> Sample" where
  "lock s = s\<lparr>locked := True\<rparr>"

definition frame_idx :: "Sample \<Rightarrow> real \<Rightarrow> int" where
  "frame_idx s seconds =
     int (nchannels s) * int (samplewidth s) * py_int (real_of_int (samplerate s) * seconds)"

definition amplify :: "Sample \<Rightarrow> real \<Rightarrow> error + Sample" where
  "amplify s factor =
     (if locked s then Inl AssertionError
      else bindE (audioop_mul (frames s) (samplewidth s) factor) (\<lambda>fr. Inr (s\<lparr>frames := fr\<rparr>)))"

definition amplify_max :: "Sample \<Rightarrow> error + Sample" where
  "amplify_max s =
     (if locked s then Inl AssertionError
      else bindE (audioop_max (frames s) (samplewidth s)) (\<lambda>max_amp.
        let max_target = (2::int) ^ (8 * samplewidth s - 1) - 2 in
        if 0 < max_amp then
          bindE (audioop_mul (frames s) (samplewidth s)
                   (real_of_int max_target / real_of_int max_amp))
            (\<lambda>fr. Inr (s\<lparr>frames := fr\<rparr>))
        else Inr s))"

definition get_32bit_frames :: "Sample \<Rightarrow> bool \<Rightarrow> error + byte list" where
  "get_32bit_frames s scale_amplitude =
     (if samplewidth s = 4 then Inr (frames s)
      else bindE (audioop_lin2lin (frames s) (samplewidth s) 4) (\<lambda>fr.
        if \<not> scale_amplitude then
          audioop_mul fr 4 (1 / 2 ^ (8 * nat \<bar>int (samplewidth s) - 4\<bar>))
        else Inr fr))"

definition make_32bit :: "Sample \<Rightarrow> bool \<Rightarrow> error + Sample" where
  "make_32bit s scale_amplitude =
     (if locked s then Inl AssertionError
      else bindE (get_32bit_frames s scale_amplitude) (\<lambda>fr.
        Inr (s\<lparr>frames := fr, samplewidth := 4\<rparr>)))"

definition make_16bit :: "Sample \<Rightarrow> bool \<Rightarrow> error + Sample" where
  "make_16bit s maximize_amplitude =
     (if locked s then Inl AssertionError
      else if \<not> 2 \<le> samplewidth s then Inl AssertionError
      else bindE (if maximize_amplitude then amplify_max s else Inr s) (\<lambda>s1.
        if 2 < samplewidth s1 then
          bindE (audioop_lin2lin (frames s1) (samplewidth s1) 2) (\<lambda>fr.
            Inr (s1\<lparr>frames := fr, samplewidth := 2\<rparr>))
        else Inr s1))"

definition clip :: "Sample \<Rightarrow> real \<Rightarrow> real \<Rightarrow> error + Sample" where
  "clip s start_seconds end_seconds =
     (if locked s then Inl AssertionError
      else if \<not> start_seconds < end_seconds then Inl AssertionError
      else Inr (s\<lparr>frames := slice (frames s) (frame_idx s start_seconds)
                                       (frame_idx s end_seconds)\<rparr>))"

text \<open>\<^verbatim>\<open>split\<close> returns the updated sample (the first part) and the chopped off part.\<close>

definition split :: "Sample \<Rightarrow> real \<Rightarrow> error + Sample \<times> Sample" where
  "split s seconds =
     (if locked s then Inl AssertionError
      else let end_idx = frame_idx s seconds in
        if end_idx \<noteq> int (length (frames s)) then
          bindE (copy s) (\<lambda>chopped.
            Inr (s\<lparr>frames := slice_to (frames s) end_idx\<rparr>,
                 chopped\<lparr>frames := slice_from (frames s) end_idx\<rparr>))
        else
          bindE (from_raw_frames [] (int (samplewidth s)) (samplerate s) (int (nchannels s)))
            (\<lambda>empty. Inr (s, empty)))"

definition add_silence :: "Sample \<Rightarrow> real \<Rightarrow> bool \<Rightarrow> error + Sample" where
  "add_silence s seconds at_start =
     (if locked s then Inl AssertionError
      else let required_extra = frame_idx s seconds in
        if at_start then Inr (s\<lparr>frames := zeros required_extra @ frames s\<rparr>)
        else Inr (s\<lparr>frames := frames s @ zeros required_extra\<rparr>))"

definition join :: "Sample \<Rightarrow> Sample \<Rightarrow> error + Sample" where
  "join s other =
     (if locked s then Inl AssertionError
      else if samplewidth s \<noteq> samplewidth other then Inl AssertionError
      else if samplerate s \<noteq> samplerate other then Inl AssertionError
      else if nchannels s \<noteq> nchannels other then Inl AssertionError
      else Inr (s\<lparr>frames := frames s @ frames other\<rparr>))"

text \<open>
  The loop of \<^verbatim>\<open>fadeout\<close> and \<^verbatim>\<open>fadein\<close> over the indices of the chunk that is faded:
  read the value, scale it by the amplitude of its index, truncate, append.
\<close>

fun fade_loop :: "nat \<Rightarrow> byte list \<Rightarrow> (nat \<Rightarrow> real) \<Rightarrow> nat list \<Rightarrow> int list \<Rightarrow> error + int list" where
  "fade_loop w chunk amplitude [] faded = Inr faded"
| "fade_loop w chunk amplitude (i # rest) faded =
     bindE (audioop_getsample chunk w (int i)) (\<lambda>v.
     bindE (array_append w faded (py_int (real_of_int v * amplitude i))) (\<lambda>faded1.
       fade_loop w chunk amplitude rest faded1))"

definition fadeout :: "Sample \<Rightarrow> real \<Rightarrow> real \<Rightarrow> error + Sample" where
  "fadeout s seconds target_volume =
     (if locked s then Inl AssertionError
      else bindE (get_array (samplewidth s)) (\<lambda>faded0.
        let secs = min seconds (duration s);
            i = frame_idx s (duration s - secs);
            begin_chunk = slice_to (frames s) i;
            end_chunk = slice_from (frames s) i;
            numsamples = real (length end_chunk) / real (samplewidth s);
            decrease = 1 - target_volume
        in bindE (fade_loop (samplewidth s) end_chunk
                    (\<lambda>i. 1 - (real i / numsamples) * decrease)
                    [0..<nat (py_int numsamples)] faded0)
             (\<lambda>faded. Inr (s\<lparr>frames := begin_chunk @ tobytes (samplewidth s) faded\<rparr>))))"

definition fadein :: "Sample \<Rightarrow> real \<Rightarrow> real \<Rightarrow> error + Sample" where
  "fadein s seconds start_volume =
     (if locked s then Inl AssertionError
      else bindE (get_array (samplewidth s)) (\<lambda>faded0.
        let secs = min seconds (duration s);
            i = frame_idx s secs;
            begin_chunk = slice_to (frames s) i;
            end_chunk = slice_from (frames s) i;
            numsamples = real (length begin_chunk) / real (samplewidth s);
            increase = 1 - start_volume
        in bindE (fade_loop (samplewidth s) begin_chunk
                    (\<lambda>i. real i * increase / numsamples + start_volume)
                    [0..<nat (py_int numsamples)] faded0)
             (\<lambda>faded. Inr (s\<lparr>frames := tobytes (samplewidth s) faded @ end_chunk\<rparr>))))"

definition delay :: "Sample \<Rightarrow> real \<Rightarrow> bool \<Rightarrow> error + Sample" where
  "delay s seconds keep_length =
     (if locked s then Inl AssertionError
      else if 0 < seconds then
        (if keep_length then
           bindE (add_silence s seconds True) (\<lambda>s1.
             Inr (s1\<lparr>frames := slice_to (frames s1) (int (length (frames s)))\<rparr>))
         else add_silence s seconds True)
      else if seconds < 0 then
        (if keep_length then
           bindE (add_silence s (- seconds) False) (\<lambda>s1.
             Inr (s1\<lparr>frames := slice_from (frames s1)
                                   (int (length (frames s1)) - int (length (frames s)))\<rparr>))
         else Inr (s\<lparr>frames := slice_from (frames s) (frame_idx s (- seconds))\<rparr>))
      else Inr s)"

definition mono :: "Sample \<Rightarrow> real \<Rightarrow> real \<Rightarrow> error + Sample" where
  "mono s left_factor right_factor =
     (if locked s then Inl AssertionError
      else if nchannels s = 1 then Inr s
      else if nchannels s = 2 then
        bindE (audioop_tomono (frames s) (samplewidth s) left_factor right_factor) (\<lambda>fr.
          Inr (s\<lparr>frames := fr, nchannels := 1\<rparr>))
      else Inl ValueError)"

definition left :: "Sample \<Rightarrow> error + Sample" where
  "left s =
     (if locked s then Inl AssertionError
      else if nchannels s \<noteq> 2 then Inl AssertionError
      else mono s 1 0)"

definition right :: "Sample \<Rightarrow> error + Sample" where
  "right s =
     (if locked s then Inl AssertionError
      else if nchannels s \<noteq> 2 then Inl AssertionError
      else mono s 0 1)"

text \<open>
  \<^verbatim>\<open>mix\<close>; the optional limit \<^verbatim>\<open>other_seconds\<close> is used when it is truthy (neither
  \<^verbatim>\<open>None\<close> nor zero).
\<close>

definition truthy_seconds :: "real option \<Rightarrow> bool" where
  "truthy_seconds os = (case os of None \<Rightarrow> False | Some x \<Rightarrow> x \<noteq> 0)"

definition limited_frames :: "Sample \<Rightarrow> real option \<Rightarrow> byte list" where
  "limited_frames other other_seconds =
     (case other_seconds of
        None \<Rightarrow> frames other
      | Some x \<Rightarrow> if x \<noteq> 0 then slice_to (frames other) (frame_idx other x) else frames other)"

definition mix :: "Sample \<Rightarrow> Sample \<Rightarrow> real option \<Rightarrow> bool \<Rightarrow> error + Sample" where
  "mix s other other_seconds pad_shortest =
     (if locked s then Inl AssertionError
      else if samplewidth s \<noteq> samplewidth other then Inl AssertionError
      else if samplerate s \<noteq> samplerate other then Inl AssertionError
      else if nchannels s \<noteq> nchannels other then Inl AssertionError
      else let frames1 = frames s;
               frames2 = limited_frames other other_seconds;
               frames1p = (if pad_shortest \<and> length frames1 < length frames2
                           then frames1 @ zeros (int (length frames2) - int (length frames1))
                           else frames1);
               frames2p = (if pad_shortest \<and> \<not> length frames1 < length frames2
                              \<and> length frames2 < length frames1
                           then frames2 @ zeros (int (length frames1) - int (length frames2))
                           else frames2)
           in bindE (audioop_add frames1p frames2p (samplewidth s)) (\<lambda>fr.
                Inr (s\<lparr>frames := fr\<rparr>)))"

text \<open>\<^verbatim>\<open>_mix_grow_if_needed\<close>, \<^verbatim>\<open>_mix_split_frames\<close> and \<^verbatim>\<open>_mix_join_frames\<close>.\<close>

definition mix_grow_if_needed :: "byte list \<Rightarrow> int \<Rightarrow> int \<Rightarrow> byte list" where
  "mix_grow_if_needed fr start_frame_idx other_length =
     (let required_length = start_frame_idx + other_length in
      if int (length fr) < required_length then fr @ zeros (required_length - int (length fr))
      else fr)"

definition mix_split_frames :: "byte list \<Rightarrow> int \<Rightarrow> int \<Rightarrow> byte list \<times> byte list \<times> byte list" where
  "mix_split_frames fr other_frames_length start_frame_idx =
     (let fr1 = mix_grow_if_needed fr start_frame_idx other_frames_length
      in (slice_to fr1 start_frame_idx,
          slice fr1 start_frame_idx (start_frame_idx + other_frames_length),
          slice_from fr1 (start_frame_idx + other_frames_length)))"

definition mix_join_frames :: "byte list \<Rightarrow> byte list \<Rightarrow> byte list \<Rightarrow> byte list" where
  "mix_join_frames pre mid post = pre @ mid @ post"

definition mix_at :: "Sample \<Rightarrow> real \<Rightarrow> Sample \<Rightarrow> real option \<Rightarrow> error + Sample" where
  "mix_at s seconds other other_seconds =
     (if seconds = 0 then mix s other other_seconds True
      else if locked s then Inl AssertionError
      else if samplewidth s \<noteq> samplewidth other then Inl AssertionError
      else if samplerate s \<noteq> samplerate other then Inl AssertionError
      else if nchannels s \<noteq> nchannels other then Inl AssertionError
      else let start_frame_idx = frame_idx s seconds;
               other_frames = limited_frames other other_seconds
           in (case mix_split_frames (frames s) (int (length other_frames)) start_frame_idx of
                 (pre, to_mix, post) \<Rightarrow>
                   bindE (audioop_add to_mix other_frames (samplewidth s)) (\<lambda>mixed.
                     Inr (s\<lparr>frames := mix_join_frames pre mixed post\<rparr>))))"

text \<open>
  \<^verbatim>\<open>stereo\<close> and \<^verbatim>\<open>stereo_mix\<close> call each other. \<^verbatim>\<open>stereo_mix\<close> calls \<^verbatim>\<open>stereo\<close> only on
  a sample with one channel (on \<^verbatim>\<open>self\<close> under the test \<^verbatim>\<open>nchannels == 1\<close>, and on the copy
  of \<^verbatim>\<open>other\<close>, asserted to be mono), so \<open>stereo_1\<close> is \<^verbatim>\<open>stereo\<close> without its two-channel
  branch.
\<close>

datatype channel = L | R

definition stereo_1 :: "Sample \<Rightarrow> real \<Rightarrow> real \<Rightarrow> error + Sample" where
  "stereo_1 s left_factor right_factor =
     (if locked s then Inl AssertionError
      else if nchannels s = 1 then
        bindE (audioop_tostereo (frames s) (samplewidth s) left_factor right_factor) (\<lambda>fr.
          Inr (s\<lparr>frames := fr, nchannels := 2\<rparr>))
      else Inl ValueError)"

definition stereo_mix :: "Sample \<Rightarrow> Sample \<Rightarrow> channel \<Rightarrow> real \<Rightarrow> real \<Rightarrow> real option \<Rightarrow> error + Sample" where
  "stereo_mix s other other_channel other_mix_factor mix_at_seconds other_seconds =
     (if locked s then Inl AssertionError
      else if nchannels other \<noteq> 1 then Inl AssertionError
      else if samplerate other \<noteq> samplerate s then Inl AssertionError
      else if samplewidth other \<noteq> samplewidth s then Inl AssertionError
      else bindE (if nchannels s = 1
                  then (if other_channel = L then stereo_1 s 0 1 else stereo_1 s 1 0)
                  else Inr s) (\<lambda>s1.
           bindE (copy other) (\<lambda>other1.
           bindE (if other_channel = L then stereo_1 other1 other_mix_factor 0
                  else stereo_1 other1 0 other_mix_factor) (\<lambda>other2.
             mix_at s1 mix_at_seconds other2 other_seconds))))"

definition stereo :: "Sample \<Rightarrow> real \<Rightarrow> real \<Rightarrow> error + Sample" where
  "stereo s left_factor right_factor =
     (if locked s then Inl AssertionError
      else if nchannels s = 2 then
        bindE (copy s) (\<lambda>c.
        bindE (right c) (\<lambda>right_part.
        bindE (left s) (\<lambda>s1.
        bindE (amplify s1 left_factor) (\<lambda>s2.
          stereo_mix s2 right_part R right_factor 0 None))))
      else stereo_1 s left_factor right_factor)"

text \<open>
  The loop of \<^verbatim>\<open>echo\<close>: \<open>n\<close> is the number of iterations that \<^verbatim>\<open>range(amount)\<close> has left.
\<close>

fun echo_loop :: "nat \<Rightarrow> Sample \<Rightarrow> Sample \<Rightarrow> real \<Rightarrow> real \<Rightarrow> real \<Rightarrow> real \<Rightarrow> error + Sample" where
  "echo_loop 0 s echo echo_amp len delay_seconds decay = Inr s"
| "echo_loop (Suc n) s echo echo_amp len delay_seconds decay =
     (if echo_amp < 1 / 2 ^ (8 * samplewidth s - 1) then Inr s
      else bindE (copy echo) (\<lambda>c.
           bindE (amplify c echo_amp) (\<lambda>echo1.
           bindE (mix_at s (len + delay_seconds) echo1 None) (\<lambda>s1.
             echo_loop n s1 echo1 (echo_amp * decay) (len + delay_seconds) delay_seconds decay))))"

definition echo :: "Sample \<Rightarrow> real \<Rightarrow> int \<Rightarrow> real \<Rightarrow> real \<Rightarrow> error + Sample" where
  "echo s len amount delay_seconds decay =
     (if locked s then Inl AssertionError
      else if 0 < amount then
        (let len1 = max 0 (duration s - len) in
         bindE (copy s) (\<lambda>c.
           echo_loop (nat amount) s (c\<lparr>frames := slice_from (frames s) (frame_idx s len1)\<rparr>)
             decay len1 delay_seconds decay))
      else Inr s)"

definition envelope :: "Sample \<Rightarrow> real \<Rightarrow> real \<Rightarrow> real \<Rightarrow> real \<Rightarrow> error + Sample" where
  "envelope s attack decay sustainlevel release =
     (if locked s then Inl AssertionError
      else if \<not> (0 \<le> attack \<and> 0 \<le> decay \<and> 0 \<le> release) then Inl AssertionError
      else if \<not> (0 \<le> sustainlevel \<and> sustainlevel \<le> 1) then Inl AssertionError
      else bindE (split s attack) (\<lambda>(a0, d0).
           bindE (split d0 decay) (\<lambda>(d1, s0).
           bindE (if sustainlevel < 1 then amplify s0 sustainlevel else Inr s0) (\<lambda>s1.
           bindE (split s1 (duration s1 - release)) (\<lambda>(s2, r0).
           bindE (if 0 < attack then fadein a0 attack 0 else Inr a0) (\<lambda>a1.
           bindE (if 0 < decay then fadeout d1 decay sustainlevel else Inr d1) (\<lambda>d2.
           bindE (if 0 < release then fadeout r0 release 0 else Inr r0) (\<lambda>r1.
           bindE (join a1 d2) (\<lambda>j1.
           bindE (join j1 s2) (\<lambda>j2.
             join j2 r1))))))))))"

text \<open>
  \<^verbatim>\<open>at_volume\<close> creates a new object and leaves \<^verbatim>\<open>self\<close> alone. To state this, the objects
  live in a store (a list of samples, a reference is an index): \<^verbatim>\<open>Sample()\<close> allocates a
  new cell, and a method call updates the cell of the object it is called on.
\<close>

type_synonym store = "Sample list"

definition at_volume :: "store \<Rightarrow> nat \<Rightarrow> real \<Rightarrow> error + store \<times> nat" where
  "at_volume h self volume =
     (let cpy = length h; h1 = h @ [new_Sample] in
      bindE (copy_from (h1 ! cpy) (h1 ! self)) (\<lambda>c.
      bindE (amplify ((h1[cpy := c]) ! cpy) volume) (\<lambda>c1.
        Inr ((h1[cpy := c])[cpy := c1], cpy))))"

section \<open>The playback worker of \<^verbatim>\<open>Output\<close>\<close>

text \<open>
  The queue holds samples and \<^verbatim>\<open>None\<close>, the token that \<^verbatim>\<open>close\<close> enqueues. The worker's
  loop tests \<^verbatim>\<open>not sample\<close>: \<^verbatim>\<open>None\<close> is false, and a \<^verbatim>\<open>Sample\<close>, which defines \<^verbatim>\<open>__len__\<close>
  and no \<^verbatim>\<open>__bool__\<close>, is false when its length is 0. \<open>run\<close> takes the items in the order
  \<^verbatim>\<open>queue.get()\<close> delivers them and the bytes written to the stream so far; with no item
  left the worker waits in \<^verbatim>\<open>get\<close>.
\<close>

definition truthy :: "Sample option \<Rightarrow> bool" where
  "truthy item = (case item of None \<Rightarrow> False | Some sample \<Rightarrow> sample_len sample \<noteq> 0)"

datatype worker = Exited "byte list" "Sample option list" | Waiting "byte list"

fun run :: "Sample option list \<Rightarrow> byte list \<Rightarrow> worker" where
  "run [] stream = Waiting stream"
| "run (None # queue) stream = Exited stream queue"
| "run (Some sample # queue) stream =
     (if \<not> truthy (Some sample) then Exited stream queue
      else run queue (stream @ frames sample))"

definition add_to_queue :: "Sample option list \<Rightarrow> Sample option \<Rightarrow> Sample option list" where
  "add_to_queue queue item = queue @ [item]"

text \<open>\<^verbatim>\<open>Output.close\<close>, for an output that has an outputter.\<close>

definition close :: "Sample option list \<Rightarrow> Sample option list" where
  "close queue = add_to_queue queue None"

section \<open>The class \<^verbatim>\<open>LevelMeter\<close>\<close>

record LevelMeter =
  rms :: bool
  lowest :: real
  peak_left :: real
  peak_right :: real
  peak_left_hold :: real
  peak_right_hold :: real
  level_left :: real
  level_right :: real
  time :: real

definition reset :: "LevelMeter \<Rightarrow> LevelMeter" where
  "reset m = m\<lparr>peak_left := lowest m, peak_right := lowest m,
               peak_left_hold := 0, peak_right_hold := 0,
               level_left := 0, level_right := 0, time := 0\<rparr>"

definition new_LevelMeter :: "bool \<Rightarrow> real \<Rightarrow> error + LevelMeter" where
  "new_LevelMeter rms_mode low =
     (if \<not> (- 60 \<le> low \<and> low < 0) then Inl AssertionError
      else Inr (reset \<lparr>rms = rms_mode, lowest = low, peak_left = 0, peak_right = 0,
                       peak_left_hold = 0, peak_right_hold = 0,
                       level_left = 0, level_right = 0, time = 0\<rparr>))"

text \<open>
  \<^verbatim>\<open>process\<close> returns the updated meter and the tuple
  \<^verbatim>\<open>(left, peak_left, right, peak_right)\<close>.
\<close>

definition process :: "LevelMeter \<Rightarrow> Sample \<Rightarrow> error + LevelMeter \<times> (real \<times> real \<times> real \<times> real)" where
  "process m sample =
     bindE (db_level sample (rms m)) (\<lambda>(l0, r0).
       let left_level = max l0 (lowest m);
           right_level = max r0 (lowest m);
           t = time m + duration sample;
           pl1 = (if t - peak_left_hold m > 0.4 then peak_left m - duration sample * 30
                  else peak_left m);
           pl2 = (if left_level \<ge> pl1 then left_level else pl1);
           hl = (if left_level \<ge> pl1 then t else peak_left_hold m);
           pr1 = (if t - peak_right_hold m > 0.4 then peak_right m - duration sample * 30
                  else peak_right m);
           pr2 = (if right_level \<ge> pr1 then right_level else pr1);
           hr = (if right_level \<ge> pr1 then t else peak_right_hold m)
       in Inr (m\<lparr>peak_left := pl2, peak_right := pr2,
                  peak_left_hold := hl, peak_right_hold := hr,
                  level_left := left_level, level_right := right_level, time := t\<rparr>,
               (left_level, pl2, right_level, pr2)))"

section \<open>Predicates of the specification\<close>

text \<open>A value that a sample of \<open>w\<close> bytes can hold.\<close>

definition in_range :: "nat \<Rightarrow> int \<Rightarrow> bool" where
  "in_range w v = (minval w \<le> v \<and> v \<le> maxval w)"

text \<open>The buffer-length invariant: the buffer is a whole number of frames.\<close>

definition whole_frames :: "Sample \<Rightarrow> bool" where
  "whole_frames s = (samplewidth s * nchannels s dvd length (frames s))"

text \<open>What the constructors assert of the format of a sample.\<close>

definition valid_format :: "Sample \<Rightarrow> bool" where
  "valid_format s = (2 \<le> samplewidth s \<and> samplewidth s \<le> 4 \<and> 1 \<le> nchannels s
                     \<and> nchannels s \<le> 2 \<and> 1 < samplerate s)"

text \<open>Two samples that may be mixed or joined.\<close>

definition compatible :: "Sample \<Rightarrow> Sample \<Rightarrow> bool" where
  "compatible s other = (samplewidth s = samplewidth other \<and> samplerate s = samplerate other
                          \<and> nchannels s = nchannels other)"

text \<open>The peak magnitude of a list of sample values, as \<open>audioop_max\<close> computes it.\<close>

definition peak :: "int list \<Rightarrow> int" where
  "peak vs = fold (\<lambda>v m. max m \<bar>v\<bar>) vs 0"

section \<open>Basic facts\<close>

lemma bindE_simps [simp]:
  "bindE (Inl e) f = Inl e"
  "bindE (Inr x) f = f x"
  by (simp_all add: bindE_def)

lemma bindE_eq_Inr: "bindE m f = Inr y \<longleftrightarrow> (\<exists>x. m = Inr x \<and> f x = Inr y)"
  by (cases m) simp_all

lemma length_le_bytes [simp]: "length (le_bytes n v) = n"
  by (induction n arbitrary: v) simp_all

lemma length_put_samples [simp]: "length (put_samples w vs) = w * length vs"
  by (induction vs) (simp_all add: put_samples_def)

lemma length_get_samples [simp]: "length (get_samples w bs) = length bs div w"
  by (simp add: get_samples_def)

lemma le_uint_le_bytes: "le_uint (le_bytes n v) = v mod 256 ^ n"
proof (induction n arbitrary: v)
  case 0
  show ?case by simp
next
  case (Suc n)
  have "uint (word_of_int v :: byte) = v mod 256"
    by (simp add: uint_word_of_int)
  then show ?case
    using Suc.IH [of "v div 256"] zmod_zmult2_eq [of "256 ^ n" v 256] by simp
qed

lemma pow256: "(256::int) ^ w = 2 ^ (8 * w)"
  by (simp add: power_mult)

lemma two_pow_split: "0 < w \<Longrightarrow> (2::int) ^ (8 * w) = 2 * 2 ^ (8 * w - 1)"
proof -
  assume "0 < w"
  then have "8 * w = Suc (8 * w - 1)" by simp
  then show ?thesis by (metis power_Suc)
qed

lemma to_signed_mod:
  assumes "0 < w" "minval w \<le> v" "v \<le> maxval w"
  shows "to_signed w (v mod 256 ^ w) = v"
proof (cases "0 \<le> v")
  case True
  with assms have "v mod 256 ^ w = v"
    by (simp add: pow256 two_pow_split maxval_def)
  with assms show ?thesis by (simp add: to_signed_def maxval_def)
next
  case False
  with assms have "0 \<le> v + 256 ^ w" "v + 256 ^ w < 256 ^ w"
    by (simp_all add: pow256 two_pow_split minval_def)
  then have "(v + 256 ^ w) mod 256 ^ w = v + 256 ^ w"
    by (rule mod_pos_pos_trivial)
  then have "v mod 256 ^ w = v + 256 ^ w" by simp
  with assms False show ?thesis
    by (simp add: to_signed_def minval_def pow256 two_pow_split)
qed

lemma take_drop_put_samples:
  "i < length vs \<Longrightarrow> take w (drop (i * w) (put_samples w vs)) = le_bytes w (vs ! i)"
proof (induction vs arbitrary: i)
  case Nil
  then show ?case by simp
next
  case (Cons v vs)
  show ?case
  proof (cases i)
    case 0
    then show ?thesis by (simp add: put_samples_def)
  next
    case (Suc j)
    with Cons.prems have "j < length vs" by simp
    from Cons.IH [OF this] Suc show ?thesis
      by (simp add: put_samples_def)
  qed
qed

lemma getrawsample_put_samples:
  "i < length vs \<Longrightarrow> 0 < w \<Longrightarrow> in_range w (vs ! i) \<Longrightarrow>
   getrawsample w (put_samples w vs) i = vs ! i"
  by (simp add: getrawsample_def take_drop_put_samples le_uint_le_bytes to_signed_mod in_range_def)

lemma get_samples_put_samples:
  assumes "0 < w" "list_all (in_range w) vs"
  shows "get_samples w (put_samples w vs) = vs"
proof (rule nth_equalityI)
  show "length (get_samples w (put_samples w vs)) = length vs"
    using assms by simp
next
  fix i assume "i < length (get_samples w (put_samples w vs))"
  with assms have i: "i < length vs" by simp
  with assms have "in_range w (vs ! i)" by (simp add: list_all_length)
  with i assms show "get_samples w (put_samples w vs) ! i = vs ! i"
    by (simp add: get_samples_def getrawsample_put_samples)
qed

lemma fbound_in_range: "in_range w (fbound w x)"
proof -
  have le: "minval w \<le> maxval w" by (simp add: minval_def maxval_def)
  show ?thesis
  proof (cases "x > real_of_int (maxval w)")
    case True
    with le show ?thesis by (simp add: fbound_def in_range_def)
  next
    case hi: False
    show ?thesis
    proof (cases "x < real_of_int (minval w) + 1")
      case True
      with hi le show ?thesis by (simp add: fbound_def in_range_def)
    next
      case False
      then have "real_of_int (minval w) \<le> x" by simp
      then have "minval w \<le> \<lfloor>x\<rfloor>" by (simp add: le_floor_iff)
      moreover from hi have "\<lfloor>x\<rfloor> \<le> maxval w"
        by (metis floor_mono floor_of_int not_less)
      ultimately show ?thesis using hi False by (simp add: fbound_def in_range_def)
    qed
  qed
qed

section \<open>Mixing at offset zero\<close>

text \<open>
  Claim C8. \<^verbatim>\<open>mix_at\<close> with offset 0 is \<^verbatim>\<open>mix\<close> with the same other sample and the same
  limit (and the default padding): the same updated sample, or the same exception. This
  holds for all samples, compatible and unlocked or not.
\<close>

theorem mix_at_zero_is_mix:
  "mix_at s 0 other other_seconds = mix s other other_seconds True"
  by (simp add: mix_at_def)

section \<open>Locked samples\<close>

text \<open>
  Claim C1. The setter of \<^verbatim>\<open>samplerate\<close> does not look at the lock: on a locked sample
  of 44100 Hz, setting the rate to 22050 succeeds and changes the sample.
\<close>

theorem locked_samplerate_setter_succeeds:
  "locked (lock new_Sample) \<and> samplerate (lock new_Sample) = 44100 \<and>
   set_samplerate (lock new_Sample) 22050 = Inr ((lock new_Sample)\<lparr>samplerate := 22050\<rparr>)"
  by (simp add: set_samplerate_def lock_def new_Sample_def py_int_def)

text \<open>The other mutating methods assert that the sample is not locked before anything else.\<close>

lemma locked_sample_rejects:
  assumes "locked s"
  shows "amplify s factor = Inl AssertionError"
    and "amplify_max s = Inl AssertionError"
    and "mix s other other_seconds pad_shortest = Inl AssertionError"
    and "mix_at s seconds other other_seconds = Inl AssertionError"
    and "fadein s seconds volume = Inl AssertionError"
    and "fadeout s seconds volume = Inl AssertionError"
    and "clip s start_seconds end_seconds = Inl AssertionError"
    and "split s seconds = Inl AssertionError"
    and "join s other = Inl AssertionError"
    and "add_silence s seconds at_start = Inl AssertionError"
    and "delay s seconds keep_length = Inl AssertionError"
    and "echo s len amount delay_seconds decay = Inl AssertionError"
    and "envelope s attack decay_seconds sustainlevel release = Inl AssertionError"
    and "mono s left_factor right_factor = Inl AssertionError"
    and "left s = Inl AssertionError"
    and "right s = Inl AssertionError"
    and "stereo s left_factor right_factor = Inl AssertionError"
    and "stereo_mix s other ch factor seconds other_seconds = Inl AssertionError"
    and "make_16bit s maximize = Inl AssertionError"
    and "make_32bit s scale = Inl AssertionError"
    and "copy_from s other = Inl AssertionError"
  using assms
  by (simp_all add: amplify_def amplify_max_def mix_def mix_at_def fadein_def fadeout_def
      clip_def split_def join_def add_silence_def delay_def echo_def envelope_def mono_def
      left_def right_def stereo_def stereo_mix_def make_16bit_def make_32bit_def copy_from_def)

section \<open>The shutdown token of the playback worker\<close>

text \<open>
  Claim C4. The worker leaves its loop at an empty sample (\<^verbatim>\<open>Sample()\<close>, which has no
  frames) as it does at the token of \<^verbatim>\<open>close\<close>: the sample queued behind it is never
  written.
\<close>

theorem worker_exits_on_empty_sample:
  "run [Some new_Sample,
        Some \<lparr>frames = [1, 0, 2, 0], samplewidth = 2, samplerate = 44100, nchannels = 2,
              locked = False, filename = None\<rparr>] []
   = Exited [] [Some \<lparr>frames = [1, 0, 2, 0], samplewidth = 2, samplerate = 44100,
                      nchannels = 2, locked = False, filename = None\<rparr>]"
  by (simp add: truthy_def sample_len_def new_Sample_def)

text \<open>A sample with at least one frame is written, and the token of \<^verbatim>\<open>close\<close> stops the worker.\<close>

lemma worker_writes_nonempty_sample:
  "sample_len sample \<noteq> 0 \<Longrightarrow> run (Some sample # queue) stream = run queue (stream @ frames sample)"
  by (simp add: truthy_def)

lemma worker_exits_on_close_token:
  "run (close []) stream = Exited stream []"
  by (simp add: close_def add_to_queue_def)

section \<open>Well-formed buffers\<close>

lemma check_parameters_whole:
  "valid_format s \<Longrightarrow> whole_frames s \<Longrightarrow>
   audioop_check_parameters (length (frames s)) (samplewidth s)"
  by (auto simp: valid_format_def whole_frames_def audioop_check_parameters_def
      dest: dvd_mult_left)

section \<open>A copy at another volume\<close>

text \<open>
  Claim C10. For a sample \<open>h ! self\<close> of the store, locked or not, whose buffer is a whole
  number of frames of a valid format, \<^verbatim>\<open>at_volume\<close> succeeds. The store afterwards is the
  old store, every cell unchanged (also the cell of \<open>self\<close>: frames, width, rate, channels
  and lock), with one new cell appended; the new cell is returned and holds an unlocked
  sample of the same format whose frames are those of \<open>self\<close> amplified by the volume
  (what \<^verbatim>\<open>amplify\<close> makes of an unlocked copy).
\<close>


theorem at_volume_new_sample:
  assumes "self < length h" "valid_format (h ! self)" "whole_frames (h ! self)"
  shows "at_volume h self volume =
           Inr (h @ [(h ! self)\<lparr>frames := put_samples (samplewidth (h ! self))
                       (map (\<lambda>v. fbound (samplewidth (h ! self)) (real_of_int v * volume))
                            (get_samples (samplewidth (h ! self)) (frames (h ! self)))),
                     locked := False\<rparr>], length h)
         \<and> amplify ((h ! self)\<lparr>locked := False\<rparr>) volume =
           Inr ((h ! self)\<lparr>frames := put_samples (samplewidth (h ! self))
                       (map (\<lambda>v. fbound (samplewidth (h ! self)) (real_of_int v * volume))
                            (get_samples (samplewidth (h ! self)) (frames (h ! self)))),
                     locked := False\<rparr>)"
  using assms check_parameters_whole [of "h ! self"]
  by (simp add: at_volume_def copy_from_def new_Sample_def amplify_def audioop_mul_def
      nth_append Let_def)

text \<open>Witness for C10: a locked sample with the values 16384 and -16384, at volume 1/2.\<close>

theorem at_volume_new_sample_witness:
  "at_volume [\<lparr>frames = [0, 64, 0, 192], samplewidth = 2, samplerate = 44100, nchannels = 1,
               locked = True, filename = None\<rparr>] 0 (1 / 2)
   = Inr ([\<lparr>frames = [0, 64, 0, 192], samplewidth = 2, samplerate = 44100, nchannels = 1,
               locked = True, filename = None\<rparr>,
           \<lparr>frames = [0, 32, 0, 224], samplewidth = 2, samplerate = 44100, nchannels = 1,
               locked = False, filename = None\<rparr>], 1)"
proof -
  let ?s = "\<lparr>frames = [0, 64, 0, 192] :: byte list, samplewidth = 2, samplerate = 44100,
             nchannels = 1, locked = True, filename = None :: string option\<rparr>"
  have "valid_format ([?s] ! 0)" "whole_frames ([?s] ! 0)"
    by (simp_all add: valid_format_def whole_frames_def)
  from at_volume_new_sample [of 0 "[?s]", OF _ this, of "1 / 2"]
  have "at_volume [?s] 0 (1 / 2) =
          Inr ([?s] @ [([?s] ! 0)\<lparr>frames := put_samples (samplewidth ([?s] ! 0))
                       (map (\<lambda>v. fbound (samplewidth ([?s] ! 0)) (real_of_int v * (1 / 2)))
                            (get_samples (samplewidth ([?s] ! 0)) (frames ([?s] ! 0)))),
                     locked := False\<rparr>], length [?s])"
    by simp
  also have "\<dots> = Inr ([?s, \<lparr>frames = [0, 32, 0, 224], samplewidth = 2, samplerate = 44100,
                          nchannels = 1, locked = False, filename = None\<rparr>], 1)"
    by code_simp
  finally show ?thesis .
qed





section \<open>Amplifying to the maximum\<close>















section \<open>Mixing two samples\<close>

lemma getrawsample_append1:
  assumes "i * w + w \<le> length a"
  shows "getrawsample w (a @ b) i = getrawsample w a i"
  using assms by (simp add: getrawsample_def)

lemma getrawsample_append2:
  assumes "length a = n * w"
  shows "getrawsample w (a @ b) (n + i) = getrawsample w b i"
  using assms by (simp add: getrawsample_def add_mult_distrib)

lemma get_samples_append:
  assumes "0 < w" "w dvd length a"
  shows "get_samples w (a @ b) = get_samples w a @ get_samples w b"
proof -
  from assms obtain n where n: "length a = n * w" by (auto simp: dvd_def)
  with assms have na: "length a div w = n" by simp
  from n assms have nab: "length (a @ b) div w = n + length b div w" by simp
  have 1: "map (getrawsample w (a @ b)) [0..<n] = map (getrawsample w a) [0..<n]"
  proof (rule map_cong [OF refl])
    fix i assume "i \<in> set [0..<n]"
    then have "Suc i \<le> n" by simp
    then have "Suc i * w \<le> n * w" by (rule mult_le_mono1)
    with n have "i * w + w \<le> length a" by simp
    then show "getrawsample w (a @ b) i = getrawsample w a i" by (rule getrawsample_append1)
  qed
  have 2: "map (getrawsample w (a @ b)) [n..<n + length b div w]
           = map (getrawsample w b) [0..<length b div w]"
    by (rule nth_equalityI) (simp_all add: getrawsample_append2 [OF n])
  have "get_samples w (a @ b)
        = map (getrawsample w (a @ b)) ([0..<n] @ [n..<n + length b div w])"
    unfolding get_samples_def nab by (simp only: upt_add_eq_append [OF le0])
  also have "\<dots> = map (getrawsample w a) [0..<n] @ map (getrawsample w b) [0..<length b div w]"
    by (simp only: map_append 1 2)
  also have "\<dots> = get_samples w a @ get_samples w b"
    by (simp only: get_samples_def na)
  finally show ?thesis .
qed

lemma le_uint_zeros: "le_uint (replicate k 0) = 0"
  by (induction k) simp_all

lemma get_samples_zeros:
  assumes "0 < w"
  shows "get_samples w (replicate k 0) = replicate (k div w) 0"
proof (rule nth_equalityI)
  show "length (get_samples w (replicate k 0)) = length (replicate (k div w) (0::int))" by simp
next
  fix i assume "i < length (get_samples w (replicate k 0))"
  then have i: "i < k div w" by simp
  have "take w (drop (i * w) (replicate k (0::byte))) = replicate (min w (k - i * w)) 0"
    by simp
  then have "getrawsample w (replicate k 0) i = 0"
    by (simp add: getrawsample_def le_uint_zeros to_signed_def)
  with i show "get_samples w (replicate k 0) ! i = replicate (k div w) 0 ! i"
    by (simp add: get_samples_def)
qed

lemma add_sample_in_range: "in_range w (add_sample w a b)"
proof (cases "w < 4")
  case True
  have "minval w \<le> maxval w" by (simp add: minval_def maxval_def)
  with True show ?thesis by (simp add: add_sample_def in_range_def)
next
  case False
  then show ?thesis by (simp add: add_sample_def fbound_in_range)
qed

lemma audioop_add_samples:
  assumes "audioop_check_parameters (length a) w" "length a = length b"
  shows "audioop_add a b w = Inr (put_samples w (map (\<lambda>(x, y). add_sample w x y)
            (zip (get_samples w a) (get_samples w b))))"
    and "get_samples w (put_samples w (map (\<lambda>(x, y). add_sample w x y)
            (zip (get_samples w a) (get_samples w b))))
         = map (\<lambda>(x, y). add_sample w x y) (zip (get_samples w a) (get_samples w b))"
    and "length (put_samples w (map (\<lambda>(x, y). add_sample w x y)
            (zip (get_samples w a) (get_samples w b)))) = length a"
proof -
  from assms show "audioop_add a b w = Inr (put_samples w (map (\<lambda>(x, y). add_sample w x y)
            (zip (get_samples w a) (get_samples w b))))"
    by (simp add: audioop_add_def)
  from assms have w: "0 < w" and m: "length a mod w = 0"
    by (simp_all add: audioop_check_parameters_def)
  have "list_all (in_range w) (map (\<lambda>(x, y). add_sample w x y)
            (zip (get_samples w a) (get_samples w b)))"
    by (auto simp: list_all_iff add_sample_in_range)
  with w show "get_samples w (put_samples w (map (\<lambda>(x, y). add_sample w x y)
            (zip (get_samples w a) (get_samples w b))))
         = map (\<lambda>(x, y). add_sample w x y) (zip (get_samples w a) (get_samples w b))"
    by (rule get_samples_put_samples)
  from assms(2) m show "length (put_samples w (map (\<lambda>(x, y). add_sample w x y)
            (zip (get_samples w a) (get_samples w b)))) = length a"
    by auto
qed

lemma get_samples_padded:
  assumes "0 < w" "length a mod w = 0" "length b mod w = 0"
  shows "get_samples w (a @ replicate (length b - length a) 0)
         = get_samples w a @ replicate (length b div w - length a div w) 0"
proof -
  from assms have da: "w dvd length a" and "w dvd length b" by auto
  then obtain p q where pq: "length a = w * p" "length b = w * q" by (auto simp: dvd_def)
  then have "length b - length a = w * (q - p)" by (simp add: diff_mult_distrib2)
  with assms(1) pq have "(length b - length a) div w = length b div w - length a div w"
    by simp
  with assms da show ?thesis
    by (simp add: get_samples_append get_samples_zeros)
qed

lemma mix_padded_operands:
  "(if True \<and> length f1 < length f2 then f1 @ zeros (int (length f2) - int (length f1)) else f1)
     = f1 @ replicate (length f2 - length f1) 0"
  "(if True \<and> \<not> length f1 < length f2 \<and> length f2 < length f1
    then f2 @ zeros (int (length f1) - int (length f2)) else f2)
     = f2 @ replicate (length f1 - length f2) 0"
  by (auto simp: zeros_def nat_diff_distrib)

text \<open>
  Claim C2, as stated, fails where the padding is switched off: two compatible unlocked
  16-bit mono samples of 2 and 1 values are not mixed at the shorter length, the kernel's
  add refuses operands of different lengths and \<^verbatim>\<open>mix\<close> raises its error.
\<close>

theorem mix_unpadded_fails:
  "mix \<lparr>frames = [1, 0, 2, 0], samplewidth = 2, samplerate = 44100, nchannels = 1,
         locked = False, filename = None\<rparr>
       \<lparr>frames = [5, 0], samplewidth = 2, samplerate = 44100, nchannels = 1,
         locked = False, filename = None\<rparr> None False
   = Inl AudioopError"
  by (simp add: mix_def limited_frames_def audioop_add_def audioop_check_parameters_def)

text \<open>
  Claim C2, amended. For two compatible samples, the first unlocked, whose buffers the
  kernel accepts: with \<^verbatim>\<open>pad_shortest\<close> true, \<^verbatim>\<open>mix\<close> succeeds, the new buffer has the
  length of the longer one and its values are the elementwise (clamped) sums of the two
  value lists, the shorter of them extended with zeros; with \<^verbatim>\<open>pad_shortest\<close> false and
  buffers of different lengths \<^verbatim>\<open>mix\<close> fails with the kernel's error, and with equal
  lengths it does what it does with padding.
\<close>

theorem mix_pad_shortest:
  assumes "\<not> locked s" "compatible s other"
    and "audioop_check_parameters (length (frames s)) (samplewidth s)"
    and "audioop_check_parameters (length (frames other)) (samplewidth s)"
  shows "(\<exists>s'. mix s other None True = Inr s'
            \<and> length (frames s') = max (length (frames s)) (length (frames other))
            \<and> get_samples (samplewidth s) (frames s') =
                map (\<lambda>(a, b). add_sample (samplewidth s) a b)
                  (zip (get_samples (samplewidth s) (frames s)
                          @ replicate (length (frames other) div samplewidth s
                                       - length (frames s) div samplewidth s) 0)
                       (get_samples (samplewidth s) (frames other)
                          @ replicate (length (frames s) div samplewidth s
                                       - length (frames other) div samplewidth s) 0))
            \<and> samplewidth s' = samplewidth s \<and> samplerate s' = samplerate s
            \<and> nchannels s' = nchannels s \<and> locked s' = locked s)
         \<and> (length (frames s) \<noteq> length (frames other) \<longrightarrow>
              mix s other None False = Inl AudioopError)
         \<and> (length (frames s) = length (frames other) \<longrightarrow>
              mix s other None False = mix s other None True)"
proof (intro conjI impI)
  let ?w = "samplewidth s"
  let ?f1 = "frames s" and ?f2 = "frames other"
  let ?p1 = "?f1 @ replicate (length ?f2 - length ?f1) 0"
  let ?p2 = "?f2 @ replicate (length ?f1 - length ?f2) 0"
  from assms have w: "0 < ?w" and m1: "length ?f1 mod ?w = 0" and m2: "length ?f2 mod ?w = 0"
    by (simp_all add: audioop_check_parameters_def)
  have len: "length ?p1 = length ?p2" "length ?p1 = max (length ?f1) (length ?f2)" by auto
  from m1 m2 have "max (length ?f1) (length ?f2) mod ?w = 0" by (simp add: max_def)
  with assms(3) len have chk: "audioop_check_parameters (length ?p1) ?w"
    by (simp add: audioop_check_parameters_def)
  note add = audioop_add_samples [OF chk len(1)]
  have mixed: "mix s other None True = bindE (audioop_add ?p1 ?p2 ?w) (\<lambda>fr. Inr (s\<lparr>frames := fr\<rparr>))"
    using assms(1,2) mix_padded_operands [of ?f1 ?f2]
    by (simp add: mix_def compatible_def limited_frames_def Let_def)
  have dec: "get_samples ?w ?p1 = get_samples ?w ?f1
               @ replicate (length ?f2 div ?w - length ?f1 div ?w) 0"
            "get_samples ?w ?p2 = get_samples ?w ?f2
               @ replicate (length ?f1 div ?w - length ?f2 div ?w) 0"
    using w m1 m2 by (simp_all only: get_samples_padded)
  show "\<exists>s'. mix s other None True = Inr s'
            \<and> length (frames s') = max (length (frames s)) (length (frames other))
            \<and> get_samples (samplewidth s) (frames s') =
                map (\<lambda>(a, b). add_sample (samplewidth s) a b)
                  (zip (get_samples (samplewidth s) (frames s)
                          @ replicate (length (frames other) div samplewidth s
                                       - length (frames s) div samplewidth s) 0)
                       (get_samples (samplewidth s) (frames other)
                          @ replicate (length (frames s) div samplewidth s
                                       - length (frames other) div samplewidth s) 0))
            \<and> samplewidth s' = samplewidth s \<and> samplerate s' = samplerate s
            \<and> nchannels s' = nchannels s \<and> locked s' = locked s"
    unfolding mixed add(1) using add(2,3) len(2) by (simp add: dec)
next
  assume "length (frames s) \<noteq> length (frames other)"
  with assms show "mix s other None False = Inl AudioopError"
    by (simp add: mix_def compatible_def limited_frames_def audioop_add_def Let_def)
next
  assume "length (frames s) = length (frames other)"
  then show "mix s other None False = mix s other None True"
    by (simp add: mix_def limited_frames_def Let_def)
qed

text \<open>Witness for C2: the values 1, 2 mixed with the value 5.\<close>

theorem mix_pad_shortest_witness:
  "mix \<lparr>frames = [1, 0, 2, 0], samplewidth = 2, samplerate = 44100, nchannels = 1,
         locked = False, filename = None\<rparr>
       \<lparr>frames = [5, 0], samplewidth = 2, samplerate = 44100, nchannels = 1,
         locked = False, filename = None\<rparr> None True
     = Inr \<lparr>frames = [6, 0, 2, 0], samplewidth = 2, samplerate = 44100, nchannels = 1,
             locked = False, filename = None\<rparr>
   \<and> get_samples 2 [6, 0, 2, 0] = [1 + 5, 2 + 0]
   \<and> mix \<lparr>frames = [1, 0, 2, 0], samplewidth = 2, samplerate = 44100, nchannels = 1,
         locked = False, filename = None\<rparr>
       \<lparr>frames = [5, 0], samplewidth = 2, samplerate = 44100, nchannels = 1,
         locked = False, filename = None\<rparr> None False
     = Inl AudioopError"
proof -
  let ?s = "\<lparr>frames = [1, 0, 2, 0] :: byte list, samplewidth = 2, samplerate = 44100,
             nchannels = 1, locked = False, filename = None :: string option\<rparr>"
  let ?o = "\<lparr>frames = [5, 0] :: byte list, samplewidth = 2, samplerate = 44100,
             nchannels = 1, locked = False, filename = None :: string option\<rparr>"
  have h: "\<not> locked ?s" "compatible ?s ?o"
    "audioop_check_parameters (length (frames ?s)) (samplewidth ?s)"
    "audioop_check_parameters (length (frames ?o)) (samplewidth ?s)"
    by (simp_all add: compatible_def audioop_check_parameters_def)
  have ev: "mix ?s ?o None True = Inr \<lparr>frames = [6, 0, 2, 0], samplewidth = 2,
              samplerate = 44100, nchannels = 1, locked = False, filename = None\<rparr>"
    by code_simp
  have dec: "get_samples 2 [6, 0, 2, 0 :: byte] = [1 + 5, 2 + 0]" by code_simp
  from mix_pad_shortest [OF h] have "mix ?s ?o None False = Inl AudioopError" by simp
  with ev dec show ?thesis by simp
qed

end
